theory Spec2Isabelle
  imports Complex_Main "HOL-Library.Monad_Syntax" "HOL-Library.AList"
begin

section \<open>JavaScript values\<close>

text \<open>
  The handler of \<^verbatim>\<open>good-speak/src/app/api/moderate/route.js\<close> works on values that come
  out of \<^verbatim>\<open>JSON.parse\<close> (the request body and the two upstream response bodies), on
  \<^verbatim>\<open>undefined\<close> (what a read of an absent property gives) and on number literals.

  A JavaScript number is a double. Every finite double is a rational, so a finite number is
  modelled by its exact value; \<^verbatim>\<open>JSON.parse\<close> gives an infinity for a literal that
  overflows, and \<^verbatim>\<open>NaN\<close> comes out of coercions. The rationals are more values than
  there are doubles: a theorem for every rational holds for every double.
\<close>

datatype jsnum = Fin rat | PosInf | NegInf | NaN

datatype jsval =
    JUndefined
  | JNull
  | JBool bool
  | JNum jsnum
  | JStr string
  | JArr "jsval list"
  | JObj "(string \<times> jsval) list"

text \<open>\<^verbatim>\<open>ToBoolean\<close>: what \<^verbatim>\<open>!v\<close> and \<^verbatim>\<open>v || w\<close> test.\<close>

fun truthy :: "jsval \<Rightarrow> bool" where
  "truthy JUndefined = False"
| "truthy JNull = False"
| "truthy (JBool b) = b"
| "truthy (JNum n) = (n \<noteq> Fin 0 \<and> n \<noteq> NaN)"
| "truthy (JStr s) = (s \<noteq> [])"
| "truthy (JArr xs) = True"
| "truthy (JObj kvs) = True"

text \<open>\<^verbatim>\<open>a || b\<close>\<close>

definition js_or :: "jsval \<Rightarrow> jsval \<Rightarrow> jsval" where
  "js_or a b = (if truthy a then a else b)"

text \<open>
  Property reads. The names the handler reads (\<^verbatim>\<open>username\<close>, \<^verbatim>\<open>message\<close>,
  \<^verbatim>\<open>attributeScores\<close>, \<^verbatim>\<open>TOXICITY\<close>, \<^verbatim>\<open>summaryScore\<close>, \<^verbatim>\<open>value\<close>,
  \<^verbatim>\<open>choices\<close>, \<^verbatim>\<open>content\<close>) are on no built-in prototype and are no array index, so a
  read of one of them finds an own property of a parsed object and \<^verbatim>\<open>undefined\<close> on
  anything else. An object is the association list of its properties, looked up from the
  front. \<open>named_prop\<close> is for these names only.
\<close>

fun named_prop :: "jsval \<Rightarrow> string \<Rightarrow> jsval" where
  "named_prop (JObj kvs) k = (case map_of kvs k of None \<Rightarrow> JUndefined | Some v \<Rightarrow> v)"
| "named_prop v k = JUndefined"

text \<open>
  \<^verbatim>\<open>v[0]\<close> on a value that is neither \<^verbatim>\<open>null\<close> nor \<^verbatim>\<open>undefined\<close>: the first element
  of an array, the first character of a string, the property \<^verbatim>\<open>"0"\<close> of an object.
\<close>

fun index0 :: "jsval \<Rightarrow> jsval" where
  "index0 (JArr xs) = (case xs of [] \<Rightarrow> JUndefined | x # rest \<Rightarrow> x)"
| "index0 (JStr s) = (case s of [] \<Rightarrow> JUndefined | c # rest \<Rightarrow> JStr [c])"
| "index0 (JObj kvs) = (case map_of kvs ''0'' of None \<Rightarrow> JUndefined | Some v \<Rightarrow> v)"
| "index0 v = JUndefined"

definition nullish :: "jsval \<Rightarrow> bool" where
  "nullish v = (v = JUndefined \<or> v = JNull)"

text \<open>\<^verbatim>\<open>v.k\<close> throws a TypeError on \<^verbatim>\<open>null\<close> and \<^verbatim>\<open>undefined\<close>: the value \<open>None\<close>.\<close>

definition member :: "jsval \<Rightarrow> string \<Rightarrow> jsval option" where
  "member v k = (if nullish v then None else Some (named_prop v k))"

text \<open>\<^verbatim>\<open>v?.k\<close> and \<^verbatim>\<open>v?.[0]\<close>\<close>

definition opt_member :: "jsval \<Rightarrow> string \<Rightarrow> jsval" where
  "opt_member v k = (if nullish v then JUndefined else named_prop v k)"

definition opt_index0 :: "jsval \<Rightarrow> jsval" where
  "opt_index0 v = (if nullish v then JUndefined else index0 v)"

subsection \<open>Coercions of the language runtime\<close>

text \<open>
  The comparison \<^verbatim>\<open>toxicity > THRESHOLD\<close> and the template literal around
  \<^verbatim>\<open>message\<close> coerce their operand. Three operations of the runtime are taken as they
  are, as parameters: \<^verbatim>\<open>StringToNumber\<close>, \<^verbatim>\<open>Number::toString\<close> and
  \<^verbatim>\<open>ToPrimitive\<close> on an array or an object, which gives a string or throws a TypeError
  (a parsed object whose own \<^verbatim>\<open>toString\<close> and \<^verbatim>\<open>valueOf\<close> are not callable).
  A thrown error is the string \<^verbatim>\<open>String(err)\<close>.
\<close>

record runtime =
  string_to_number :: "string \<Rightarrow> jsnum"
  number_to_string :: "jsnum \<Rightarrow> string"
  object_to_primitive :: "jsval \<Rightarrow> string + string"

fun to_number :: "runtime \<Rightarrow> jsval \<Rightarrow> string + jsnum" where
  "to_number rt JUndefined = Inr NaN"
| "to_number rt JNull = Inr (Fin 0)"
| "to_number rt (JBool b) = Inr (Fin (if b then 1 else 0))"
| "to_number rt (JNum n) = Inr n"
| "to_number rt (JStr s) = Inr (string_to_number rt s)"
| "to_number rt v =
     (case object_to_primitive rt v of
        Inl err \<Rightarrow> Inl err
      | Inr s \<Rightarrow> Inr (string_to_number rt s))"

fun to_string :: "runtime \<Rightarrow> jsval \<Rightarrow> string + string" where
  "to_string rt JUndefined = Inr ''undefined''"
| "to_string rt JNull = Inr ''null''"
| "to_string rt (JBool b) = Inr (if b then ''true'' else ''false'')"
| "to_string rt (JNum n) = Inr (number_to_string rt n)"
| "to_string rt (JStr s) = Inr s"
| "to_string rt v = object_to_primitive rt v"

text \<open>\<^verbatim>\<open>x > y\<close> on numbers: false when either side is \<^verbatim>\<open>NaN\<close>.\<close>

fun num_gt :: "jsnum \<Rightarrow> jsnum \<Rightarrow> bool" where
  "num_gt NaN y = False"
| "num_gt x NaN = False"
| "num_gt (Fin a) (Fin b) = (b < a)"
| "num_gt (Fin a) PosInf = False"
| "num_gt (Fin a) NegInf = True"
| "num_gt PosInf PosInf = False"
| "num_gt PosInf y = True"
| "num_gt NegInf y = False"

text \<open>\<^verbatim>\<open>v > n\<close> for a number \<open>n\<close>: the left operand is coerced to a number.\<close>

definition js_gt :: "runtime \<Rightarrow> jsval \<Rightarrow> jsnum \<Rightarrow> string + bool" where
  "js_gt rt v n =
     (case to_number rt v of
        Inl err \<Rightarrow> Inl err
      | Inr x \<Rightarrow> Inr (num_gt x n))"

section \<open>The world outside the handler\<close>

text \<open>\<^verbatim>\<open>process.env\<close>: a variable is a string or is not set.\<close>

record config =
  PERSPECTIVE_KEY :: "string option"
  XAI_API_KEY :: "string option"

text \<open>A variable inside a template literal; one that is not set reads \<^verbatim>\<open>undefined\<close>.\<close>

definition env_str :: "string option \<Rightarrow> string" where
  "env_str v = (case v of None \<Rightarrow> ''undefined'' | Some s \<Rightarrow> s)"

text \<open>
  A call of \<^verbatim>\<open>fetch\<close>. \<open>payload\<close> is the value given to \<^verbatim>\<open>JSON.stringify\<close> for the
  body.
\<close>

record fetch_request =
  url :: string
  http_method :: string
  headers :: "(string \<times> string) list"
  payload :: jsval

text \<open>
  What \<^verbatim>\<open>await fetch(...)\<close> followed by \<^verbatim>\<open>await resp.json()\<close> does: \<^verbatim>\<open>fetch\<close>
  rejects (the service is not reachable), or it resolves and \<^verbatim>\<open>json()\<close> rejects (the
  body does not parse), or both resolve.
\<close>

datatype fetch_outcome =
    FetchRejects string
  | JsonRejects string
  | JsonResolves jsval

text \<open>
  \<^verbatim>\<open>JSON.stringify\<close>, which \<^verbatim>\<open>NextResponse.json\<close> writes the body with. The text is
  modelled by the value it denotes, the one a client reads back with \<^verbatim>\<open>JSON.parse\<close>:
  a number that is not finite is written \<^verbatim>\<open>null\<close>; a property whose value is
  \<^verbatim>\<open>undefined\<close> is left out; \<^verbatim>\<open>undefined\<close> in an array is written \<^verbatim>\<open>null\<close>;
  \<^verbatim>\<open>JSON.stringify(undefined)\<close> is \<^verbatim>\<open>undefined\<close>. An object has each property once:
  of an association list the first binding of a name is the property.
\<close>

primrec JSON_stringify :: "jsval \<Rightarrow> jsval" where
  "JSON_stringify JUndefined = JUndefined"
| "JSON_stringify JNull = JNull"
| "JSON_stringify (JBool b) = JBool b"
| "JSON_stringify (JNum n) = (case n of Fin q \<Rightarrow> JNum (Fin q) | _ \<Rightarrow> JNull)"
| "JSON_stringify (JStr s) = JStr s"
| "JSON_stringify (JArr xs) =
     JArr (map (\<lambda>v. if v = JUndefined then JNull else v) (map JSON_stringify xs))"
| "JSON_stringify (JObj kvs) =
     JObj (filter (\<lambda>(k, v). v \<noteq> JUndefined)
             (AList.clearjunk (map (map_prod id JSON_stringify) kvs)))"

text \<open>
  A response as the client receives it: its status, and as the body the value of the JSON
  text that \<^verbatim>\<open>NextResponse.json\<close> wrote.
\<close>

record response =
  status :: nat
  body :: jsval

text \<open>
  \<^verbatim>\<open>NextResponse.json(body, init)\<close>: the status is 200 when \<^verbatim>\<open>init\<close> is left out, and
  the body is written with \<^verbatim>\<open>JSON.stringify\<close>.
\<close>

definition NextResponse_json :: "jsval \<Rightarrow> nat option \<Rightarrow> response" where
  "NextResponse_json b init =
     \<lparr>status = (case init of None \<Rightarrow> 200 | Some s \<Rightarrow> s), body = JSON_stringify b\<rparr>"

section \<open>The handler\<close>

text \<open>
  \<^verbatim>\<open>const THRESHOLD = 0.7\<close>. The double of the literal is a little below \<open>7/10\<close> and the
  next double is above it, so on doubles \<^verbatim>\<open>x > THRESHOLD\<close> and \<open>7/10 < x\<close> agree.
\<close>

definition THRESHOLD :: jsnum where
  "THRESHOLD = Fin (7 / 10)"

definition type_error :: string where
  "type_error = ''TypeError''"

text \<open>Lines 18--28: the request to the scoring service.\<close>

definition perspective_request :: "config \<Rightarrow> jsval \<Rightarrow> fetch_request" where
  "perspective_request cfg message =
     \<lparr>url = ''https://commentanalyzer.googleapis.com/v1alpha1/comments:analyze?key=''
              @ env_str (PERSPECTIVE_KEY cfg),
      http_method = ''POST'',
      headers = [(''Content-Type'', ''application/json'')],
      payload = JObj [(''comment'', JObj [(''text'', message)]),
                      (''languages'', JArr [JStr ''en'']),
                      (''requestedAttributes'', JObj [(''TOXICITY'', JObj [])])]\<rparr>"

text \<open>
  Line 30:
  \<^verbatim>\<open>(((p_data || {}).attributeScores || {}).TOXICITY || {}).summaryScore?.value || 0.0\<close>
\<close>

definition toxicity_of :: "jsval \<Rightarrow> jsval option" where
  "toxicity_of p_data = do {
     attributeScores \<leftarrow> member (js_or p_data (JObj [])) ''attributeScores'';
     toxicity_attr \<leftarrow> member (js_or attributeScores (JObj [])) ''TOXICITY'';
     summaryScore \<leftarrow> member (js_or toxicity_attr (JObj [])) ''summaryScore'';
     Some (js_or (opt_member summaryScore ''value'') (JNum (Fin 0)))
   }"

text \<open>Line 38: the prompt, around the message as a string.\<close>

definition prompt_of :: "string \<Rightarrow> string" where
  "prompt_of m =
     ''Rewrite the following message politely without changing its meaning:''
       @ [CHR 0x0A, CHR 0x22] @ m @ [CHR 0x22, CHR 0x0A]"

text \<open>Lines 39--49: the request to the generation service.\<close>

definition xai_request :: "config \<Rightarrow> string \<Rightarrow> fetch_request" where
  "xai_request cfg prompt =
     \<lparr>url = ''https://api.xai.com/v1/chat/completions'',
      http_method = ''POST'',
      headers = [(''Content-Type'', ''application/json''),
                 (''Authorization'', ''Bearer '' @ env_str (XAI_API_KEY cfg))],
      payload = JObj [(''model'', JStr ''grok-3-mini''),
                      (''messages'',
                         JArr [JObj [(''role'', JStr ''user''),
                                     (''content'', JStr prompt)]])]\<rparr>"

text \<open>
  Line 51: \<^verbatim>\<open>xai_data?.choices?.[0]?.message?.content || null\<close>, the left operand
  first.
\<close>

definition completion_content :: "jsval \<Rightarrow> jsval" where
  "completion_content xai_data =
     opt_member (opt_member (opt_index0 (opt_member xai_data ''choices'')) ''message'')
       ''content''"

definition suggestion_of :: "jsval \<Rightarrow> jsval" where
  "suggestion_of xai_data = js_or (completion_content xai_data) JNull"

text \<open>Line 55: the object \<^verbatim>\<open>{ flagged, toxicity, suggestion }\<close>.\<close>

definition verdict :: "bool \<Rightarrow> jsval \<Rightarrow> jsval \<Rightarrow> jsval" where
  "verdict flagged toxicity suggestion =
     JObj [(''flagged'', JBool flagged), (''toxicity'', toxicity),
           (''suggestion'', suggestion)]"

text \<open>
  Lines 37--51, the body of \<^verbatim>\<open>if (toxicity > THRESHOLD)\<close>: the suggestion or the error
  thrown, and the calls of \<^verbatim>\<open>fetch\<close> made.
\<close>

definition rewrite :: "runtime \<Rightarrow> config \<Rightarrow> (fetch_request \<Rightarrow> fetch_outcome) \<Rightarrow> jsval
    \<Rightarrow> (string + jsval) \<times> fetch_request list" where
  "rewrite rt cfg fetch message =
     (case to_string rt message of
        Inl err \<Rightarrow> (Inl err, [])
      | Inr m \<Rightarrow>
          (let x_req = xai_request cfg (prompt_of m) in
           case fetch x_req of
             FetchRejects err \<Rightarrow> (Inl err, [x_req])
           | JsonRejects err \<Rightarrow> (Inl err, [x_req])
           | JsonResolves xai_data \<Rightarrow> (Inr (suggestion_of xai_data), [x_req])))"

text \<open>Lines 17--55: what the handler does with a message that passed the check of line 13.\<close>

definition moderate :: "runtime \<Rightarrow> config \<Rightarrow> (fetch_request \<Rightarrow> fetch_outcome) \<Rightarrow> jsval
    \<Rightarrow> (string + response) \<times> fetch_request list" where
  "moderate rt cfg fetch message =
     (let p_req = perspective_request cfg message in
      case fetch p_req of
        FetchRejects err \<Rightarrow> (Inl err, [p_req])
      | JsonRejects err \<Rightarrow> (Inl err, [p_req])
      | JsonResolves p_data \<Rightarrow>
          (case toxicity_of p_data of
             None \<Rightarrow> (Inl type_error, [p_req])
           | Some toxicity \<Rightarrow>
               (case js_gt rt toxicity THRESHOLD of
                  Inl err \<Rightarrow> (Inl err, [p_req])
                | Inr gt \<Rightarrow>
                    if gt then
                      (case rewrite rt cfg fetch message of
                         (Inl err, calls) \<Rightarrow> (Inl err, p_req # calls)
                       | (Inr suggestion, calls) \<Rightarrow>
                           (Inr (NextResponse_json (verdict True toxicity suggestion) None),
                            p_req # calls))
                    else
                      (Inr (NextResponse_json (verdict False toxicity JNull) None),
                       [p_req]))))"

text \<open>
  Lines 11--55, the \<^verbatim>\<open>try\<close> block. \<open>request_json\<close> is what
  \<^verbatim>\<open>await request.json()\<close> does: it throws (\<open>Inl\<close>) or gives the parsed body.
\<close>

definition try_block :: "runtime \<Rightarrow> config \<Rightarrow> (fetch_request \<Rightarrow> fetch_outcome)
    \<Rightarrow> string + jsval \<Rightarrow> (string + response) \<times> fetch_request list" where
  "try_block rt cfg fetch request_json =
     (case request_json of
        Inl err \<Rightarrow> (Inl err, [])
      | Inr parsed \<Rightarrow>
          (case (member (js_or parsed (JObj [])) ''username'',
                 member (js_or parsed (JObj [])) ''message'') of
             (Some username, Some message) \<Rightarrow>
               if \<not> truthy username \<or> \<not> truthy message then
                 (Inr (NextResponse_json
                         (JObj [(''error'', JStr ''Missing username or message'')])
                         (Some 400)),
                  [])
               else moderate rt cfg fetch message
           | _ \<Rightarrow> (Inl type_error, [])))"

text \<open>
  The handler: the \<^verbatim>\<open>try\<close> block and its \<^verbatim>\<open>catch\<close> (lines 56--58). The result is the
  response and the calls of \<^verbatim>\<open>fetch\<close> made, in order.
\<close>

definition POST :: "runtime \<Rightarrow> config \<Rightarrow> (fetch_request \<Rightarrow> fetch_outcome)
    \<Rightarrow> string + jsval \<Rightarrow> response \<times> fetch_request list" where
  "POST rt cfg fetch request_json =
     (case try_block rt cfg fetch request_json of
        (Inl err, calls) \<Rightarrow>
          (NextResponse_json
             (JObj [(''error'', JStr ''Invalid request''), (''details'', JStr err)])
             (Some 400),
           calls)
      | (Inr resp, calls) \<Rightarrow> (resp, calls))"

section \<open>The words of the specification, and sample inputs\<close>

text \<open>
  The value at the fixed path of the scoring response,
  \<^verbatim>\<open>attributeScores.TOXICITY.summaryScore.value\<close>, and \<^verbatim>\<open>undefined\<close> where the path
  breaks off.
\<close>

definition path_value :: "jsval \<Rightarrow> jsval" where
  "path_value p_data =
     opt_member (opt_member (opt_member (opt_member p_data ''attributeScores'')
       ''TOXICITY'') ''summaryScore'') ''value''"

text \<open>
  The three responses a client can receive, by name; their bodies are the values read from
  the text.
\<close>

definition invalid_request :: "string \<Rightarrow> response" where
  "invalid_request err =
     \<lparr>status = 400,
      body = JObj [(''error'', JStr ''Invalid request''), (''details'', JStr err)]\<rparr>"

definition missing_field :: response where
  "missing_field =
     \<lparr>status = 400, body = JObj [(''error'', JStr ''Missing username or message'')]\<rparr>"

definition ok_verdict :: "bool \<Rightarrow> jsval \<Rightarrow> jsval \<Rightarrow> response" where
  "ok_verdict flagged toxicity suggestion =
     \<lparr>status = 200, body = verdict flagged toxicity suggestion\<rparr>"

text \<open>
  Stubs of the two services and the bodies they answer with, as the scenarios of the
  specification describe them, and a runtime and a configuration to run them in. The
  sample runtime reads no string as a number and gives every object the string of a plain
  object; the samples below coerce strings only.
\<close>

definition sample_runtime :: runtime where
  "sample_runtime =
     \<lparr>string_to_number = (\<lambda>s. NaN),
      number_to_string = (\<lambda>n. ''0''),
      object_to_primitive = (\<lambda>v. Inr ''[object Object]'')\<rparr>"

definition sample_config :: config where
  "sample_config = \<lparr>PERSPECTIVE_KEY = Some ''pk'', XAI_API_KEY = None\<rparr>"

definition stub_fetch :: "fetch_outcome \<Rightarrow> fetch_outcome \<Rightarrow> fetch_request \<Rightarrow> fetch_outcome" where
  "stub_fetch scoring generation req =
     (if url req = ''https://api.xai.com/v1/chat/completions'' then generation else scoring)"

definition score_body :: "jsval \<Rightarrow> jsval" where
  "score_body v =
     JObj [(''attributeScores'',
            JObj [(''TOXICITY'', JObj [(''summaryScore'', JObj [(''value'', v)])])])]"

definition completion_body :: "jsval \<Rightarrow> jsval" where
  "completion_body c =
     JObj [(''choices'', JArr [JObj [(''message'', JObj [(''content'', c)])]])]"

definition request_body :: "jsval \<Rightarrow> jsval \<Rightarrow> jsval" where
  "request_body u m = JObj [(''username'', u), (''message'', m)]"

definition sample_body :: jsval where
  "sample_body = request_body (JStr ''u1'') (JStr ''You are an idiot'')"

section \<open>Reads and responses\<close>

lemma not_nullish_js_or_obj: "\<not> nullish (js_or v (JObj []))"
  by (cases v) (auto simp: nullish_def js_or_def)

lemma named_prop_js_or_obj: "named_prop (js_or v (JObj [])) k = named_prop v k"
  by (cases v) (auto simp: js_or_def)

lemma member_js_or_obj: "member (js_or v (JObj [])) k = Some (named_prop v k)"
  by (simp add: member_def not_nullish_js_or_obj named_prop_js_or_obj)



lemma try_block_parsed:
  "try_block rt cfg fetch (Inr parsed) =
     (if \<not> truthy (named_prop parsed ''username'') \<or> \<not> truthy (named_prop parsed ''message'')
      then (Inr (NextResponse_json (JObj [(''error'', JStr ''Missing username or message'')])
                   (Some 400)), [])
      else moderate rt cfg fetch (named_prop parsed ''message''))"
  by (simp add: try_block_def member_js_or_obj)

lemmas handler_defs =
  POST_def try_block_def moderate_def rewrite_def toxicity_of_def suggestion_of_def
  completion_content_def verdict_def NextResponse_json_def perspective_request_def
  xai_request_def prompt_of_def env_str_def js_gt_def THRESHOLD_def js_or_def member_def
  opt_member_def opt_index0_def nullish_def type_error_def

lemmas sample_defs =
  sample_runtime_def sample_config_def stub_fetch_def score_body_def completion_body_def
  request_body_def sample_body_def invalid_request_def missing_field_def ok_verdict_def
  path_value_def



lemma JSON_stringify_string: "JSON_stringify v = JStr t \<longleftrightarrow> v = JStr t"
  by (cases v) (auto split: jsnum.splits)

lemma truthy_defined: "truthy v \<Longrightarrow> v \<noteq> JUndefined"
  by auto





lemma POST_parsed:
  "POST rt cfg fetch (Inr parsed) =
     (if \<not> truthy (named_prop parsed ''username'') \<or> \<not> truthy (named_prop parsed ''message'')
      then (missing_field, [])
      else (case moderate rt cfg fetch (named_prop parsed ''message'') of
              (Inl err, calls) \<Rightarrow> (invalid_request err, calls)
            | (Inr resp, calls) \<Rightarrow> (resp, calls)))"
  by (auto simp: POST_def try_block_parsed NextResponse_json_def missing_field_def
        invalid_request_def split: prod.splits sum.splits)




lemma moderate_status:
  "moderate rt cfg fetch message = (Inr resp, calls) \<Longrightarrow> status resp = 200"
  by (auto simp: moderate_def Let_def NextResponse_json_def
           split: fetch_outcome.splits option.splits sum.splits if_splits prod.splits)





section \<open>The claims\<close>










text \<open>
  C4. When \<open>username\<close> or \<open>message\<close> is missing from the parsed body or is the empty
  string, the handler answers with the 400 response \<^verbatim>\<open>Missing username or message\<close> and
  has called \<^verbatim>\<open>fetch\<close> not once.
\<close>

theorem C4_missing_field_no_calls:
  assumes "named_prop parsed ''username'' = JUndefined \<or> named_prop parsed ''username'' = JStr [] \<or>
           named_prop parsed ''message'' = JUndefined \<or> named_prop parsed ''message'' = JStr []"
  shows "POST rt cfg fetch (Inr parsed) = (missing_field, []) \<and> status missing_field = 400"
  using assms by (auto simp: POST_parsed missing_field_def)

text \<open>
  The third scenario (no \<open>message\<close>), and an empty \<open>username\<close>.
\<close>

theorem C4_witness:
  "POST sample_runtime sample_config
     (stub_fetch (JsonResolves (score_body (JNum (Fin (8 / 10)))))
                 (JsonResolves (completion_body (JStr ''Please stop''))))
     (Inr (JObj [(''username'', JStr ''u1'')])) = (missing_field, []) \<and>
   POST sample_runtime sample_config
     (stub_fetch (JsonResolves (score_body (JNum (Fin (8 / 10)))))
                 (JsonResolves (completion_body (JStr ''Please stop''))))
     (Inr (request_body (JStr []) (JStr ''You are an idiot''))) = (missing_field, []) \<and>
   status missing_field = 400"
proof -
  have a: "named_prop (JObj [(''username'', JStr ''u1'')]) ''message'' = JUndefined"
    and b: "named_prop (request_body (JStr []) (JStr ''You are an idiot'')) ''username'' = JStr []"
    by (simp_all add: request_body_def)
  from a have a': "named_prop (JObj [(''username'', JStr ''u1'')]) ''username'' = JUndefined \<or>
      named_prop (JObj [(''username'', JStr ''u1'')]) ''username'' = JStr [] \<or>
      named_prop (JObj [(''username'', JStr ''u1'')]) ''message'' = JUndefined \<or>
      named_prop (JObj [(''username'', JStr ''u1'')]) ''message'' = JStr []"
    by simp
  from b have b': "named_prop (request_body (JStr []) (JStr ''You are an idiot'')) ''username'' = JUndefined \<or>
      named_prop (request_body (JStr []) (JStr ''You are an idiot'')) ''username'' = JStr [] \<or>
      named_prop (request_body (JStr []) (JStr ''You are an idiot'')) ''message'' = JUndefined \<or>
      named_prop (request_body (JStr []) (JStr ''You are an idiot'')) ''message'' = JStr []"
    by simp
  from C4_missing_field_no_calls [OF a'] C4_missing_field_no_calls [OF b']
  show ?thesis by simp
qed






text \<open>
  C7. On every input and with every behaviour of the two services, the status of the
  handler's response is 200 or 400 (so never 429 and never 5xx).
\<close>

theorem C7_status_200_or_400:
  "status (fst (POST rt cfg fetch request_json)) = 200 \<or>
   status (fst (POST rt cfg fetch request_json)) = 400"
proof (cases request_json)
  case (Inl err)
  then show ?thesis
    by (simp add: POST_def try_block_def NextResponse_json_def)
next
  case (Inr parsed)
  show ?thesis
  proof (cases "moderate rt cfg fetch (named_prop parsed ''message'')")
    case (Pair r calls)
    then show ?thesis
      using Inr moderate_status [of rt cfg fetch "named_prop parsed ''message''" _ calls]
      by (cases r) (auto simp: POST_parsed missing_field_def invalid_request_def)
  qed
qed

text \<open>
  Both statuses are taken: 400 when the scoring service is out of reach and when the
  request body does not parse, 200 on a polite message.
\<close>

theorem C7_witness:
  "status (fst (POST sample_runtime sample_config
      (stub_fetch (FetchRejects ''TypeError: fetch failed'')
                  (FetchRejects ''TypeError: fetch failed''))
      (Inr sample_body))) = 400 \<and>
   status (fst (POST sample_runtime sample_config
      (stub_fetch (JsonResolves (score_body (JNum (Fin (5 / 100)))))
                  (FetchRejects ''TypeError: fetch failed''))
      (Inr sample_body))) = 200 \<and>
   status (fst (POST sample_runtime sample_config
      (stub_fetch (JsonResolves (score_body (JNum (Fin (5 / 100)))))
                  (FetchRejects ''TypeError: fetch failed''))
      (Inl ''SyntaxError: Unexpected token''))) = 400"
proof -
  have a: "status (fst (POST sample_runtime sample_config
      (stub_fetch (FetchRejects ''TypeError: fetch failed'')
                  (FetchRejects ''TypeError: fetch failed''))
      (Inr sample_body))) \<noteq> 200"
    by (simp add: handler_defs sample_defs)
  have b: "status (fst (POST sample_runtime sample_config
      (stub_fetch (JsonResolves (score_body (JNum (Fin (5 / 100)))))
                  (FetchRejects ''TypeError: fetch failed''))
      (Inr sample_body))) \<noteq> 400"
    by (simp add: handler_defs sample_defs)
  have c: "status (fst (POST sample_runtime sample_config
      (stub_fetch (JsonResolves (score_body (JNum (Fin (5 / 100)))))
                  (FetchRejects ''TypeError: fetch failed''))
      (Inl ''SyntaxError: Unexpected token''))) \<noteq> 200"
    by (simp add: handler_defs sample_defs)
  from a b c
    C7_status_200_or_400 [of sample_runtime sample_config
      "stub_fetch (FetchRejects ''TypeError: fetch failed'')
                  (FetchRejects ''TypeError: fetch failed'')" "Inr sample_body"]
    C7_status_200_or_400 [of sample_runtime sample_config
      "stub_fetch (JsonResolves (score_body (JNum (Fin (5 / 100)))))
                  (FetchRejects ''TypeError: fetch failed'')" "Inr sample_body"]
    C7_status_200_or_400 [of sample_runtime sample_config
      "stub_fetch (JsonResolves (score_body (JNum (Fin (5 / 100)))))
                  (FetchRejects ''TypeError: fetch failed'')"
      "Inl ''SyntaxError: Unexpected token''"]
  show ?thesis by blast
qed

text \<open>
  C8. Two parsed bodies with the same \<open>message\<close> and truthy (so non-empty) \<open>username\<close>s
  give, under the same runtime, configuration and \<^verbatim>\<open>fetch\<close>, the same response and the
  same calls: the username has no part in \<open>flagged\<close>, \<open>toxicity\<close> or \<open>suggestion\<close>.
\<close>

theorem C8_username_not_used:
  assumes "truthy (named_prop parsed1 ''username'')"
    and "truthy (named_prop parsed2 ''username'')"
    and "named_prop parsed1 ''message'' = named_prop parsed2 ''message''"
  shows "POST rt cfg fetch (Inr parsed1) = POST rt cfg fetch (Inr parsed2)"
  using assms by (simp add: POST_parsed)

text \<open>
  Two usernames, one message.
\<close>

theorem C8_witness:
  "POST sample_runtime sample_config
     (stub_fetch (JsonResolves (score_body (JNum (Fin (9 / 10)))))
                 (JsonResolves (completion_body (JStr ''Please stop''))))
     (Inr (request_body (JStr ''alice'') (JStr ''You are an idiot'')))
   = POST sample_runtime sample_config
     (stub_fetch (JsonResolves (score_body (JNum (Fin (9 / 10)))))
                 (JsonResolves (completion_body (JStr ''Please stop''))))
     (Inr (request_body (JStr ''bob'') (JStr ''You are an idiot''))) \<and>
   request_body (JStr ''alice'') (JStr ''You are an idiot'')
     \<noteq> request_body (JStr ''bob'') (JStr ''You are an idiot'')"
proof -
  have a: "truthy (named_prop (request_body (JStr ''alice'') (JStr ''You are an idiot''))
             ''username'')"
    and b: "truthy (named_prop (request_body (JStr ''bob'') (JStr ''You are an idiot''))
             ''username'')"
    and m: "named_prop (request_body (JStr ''alice'') (JStr ''You are an idiot'')) ''message''
          = named_prop (request_body (JStr ''bob'') (JStr ''You are an idiot'')) ''message''"
    and d: "request_body (JStr ''alice'') (JStr ''You are an idiot'')
          \<noteq> request_body (JStr ''bob'') (JStr ''You are an idiot'')"
    by (simp_all add: request_body_def)
  from C8_username_not_used [OF a b m] d show ?thesis by simp
qed

text \<open>
  C9. The check of line 13 is on truthiness. When \<open>username\<close> and \<open>message\<close> are truthy,
  strings or not, the handler goes on and its first call is the one to the scoring service,
  with the message as it is; a number and an object are truthy. When either is falsy, the
  answer is the 400 response \<^verbatim>\<open>Missing username or message\<close> with no call; the empty
  string, 0, false and null are falsy.
\<close>

theorem C9_truthiness_check:
  "(truthy (named_prop parsed ''username'') \<and> truthy (named_prop parsed ''message'') \<longrightarrow>
      (\<exists>rest. snd (POST rt cfg fetch (Inr parsed))
                = perspective_request cfg (named_prop parsed ''message'') # rest)) \<and>
   (\<not> truthy (named_prop parsed ''username'') \<or> \<not> truthy (named_prop parsed ''message'') \<longrightarrow>
      POST rt cfg fetch (Inr parsed) = (missing_field, [])) \<and>
   truthy (JNum (Fin 5)) \<and> truthy (JObj []) \<and>
   \<not> truthy (JStr []) \<and> \<not> truthy (JNum (Fin 0)) \<and> \<not> truthy (JBool False) \<and> \<not> truthy JNull"
proof -
  have h: "\<exists>rest. snd (moderate rt cfg fetch message) = perspective_request cfg message # rest"
    for message
    by (auto simp: moderate_def Let_def
             split: fetch_outcome.splits option.splits sum.splits prod.splits)
  have "\<exists>rest. snd (case moderate rt cfg fetch message of
              (Inl err, calls) \<Rightarrow> (invalid_request err, calls)
            | (Inr resp, calls) \<Rightarrow> (resp, calls)) = perspective_request cfg message # rest"
    for message
  proof -
    obtain r calls where mc: "moderate rt cfg fetch message = (r, calls)"
      by (cases "moderate rt cfg fetch message")
    with h [of message] obtain rest where "calls = perspective_request cfg message # rest"
      by auto
    with mc show ?thesis
      by (cases r) auto
  qed
  then show ?thesis
    by (auto simp: POST_parsed)
qed

text \<open>
  A number as \<open>username\<close> and an object as \<open>message\<close> pass the check; 0 as
  \<open>username\<close> does not.
\<close>

theorem C9_witness:
  "(\<exists>rest. snd (POST sample_runtime sample_config
      (stub_fetch (JsonResolves (score_body (JNum (Fin (5 / 100)))))
                  (JsonResolves (completion_body (JStr ''Please stop''))))
      (Inr (request_body (JNum (Fin 5)) (JObj []))))
     = perspective_request sample_config (JObj []) # rest) \<and>
   POST sample_runtime sample_config
      (stub_fetch (JsonResolves (score_body (JNum (Fin (5 / 100)))))
                  (JsonResolves (completion_body (JStr ''Please stop''))))
      (Inr (request_body (JNum (Fin 0)) (JStr ''You are an idiot''))) = (missing_field, [])"
proof -
  have a: "truthy (named_prop (request_body (JNum (Fin 5)) (JObj [])) ''username'') \<and>
           truthy (named_prop (request_body (JNum (Fin 5)) (JObj [])) ''message'')"
    and n: "named_prop (request_body (JNum (Fin 5)) (JObj [])) ''message'' = JObj []"
    and b: "\<not> truthy (named_prop (request_body (JNum (Fin 0)) (JStr ''You are an idiot''))
               ''username'')"
    by (simp_all add: request_body_def)
  from a n b
    C9_truthiness_check [of "request_body (JNum (Fin 5)) (JObj [])" sample_runtime sample_config
      "stub_fetch (JsonResolves (score_body (JNum (Fin (5 / 100)))))
                  (JsonResolves (completion_body (JStr ''Please stop'')))"]
    C9_truthiness_check [of "request_body (JNum (Fin 0)) (JStr ''You are an idiot'')"
      sample_runtime sample_config
      "stub_fetch (JsonResolves (score_body (JNum (Fin (5 / 100)))))
                  (JsonResolves (completion_body (JStr ''Please stop'')))"]
  show ?thesis by simp
qed




end
